theory Spec2Isabelle
  imports Main "HOL-Library.AList"
begin

section \<open>JavaScript values\<close>

text \<open>
  The functions of \<^verbatim>\<open>packages/webdriver/src/utils.js\<close> work on decoded JSON bodies and
  on plain parameter objects. A value is one of the JavaScript kinds below; an object is
  its list of own properties in insertion order. Numbers are the integers that status
  codes and ports are, of a magnitude below \<open>10\<^sup>2\<^sup>1\<close> (where JavaScript still prints a
  number in plain decimal); fractions, infinities and \<^verbatim>\<open>NaN\<close> are left out. Strings
  are lists of characters.
\<close>

datatype jsval =
    Undefined
  | Null
  | Bool bool
  | Num int
  | Str string
  | Arr "jsval list"
  | Obj "(string \<times> jsval) list"

text \<open>The only exception the modelled code can raise by itself is a \<^verbatim>\<open>TypeError\<close>
  (reading a property of \<^verbatim>\<open>undefined\<close>/\<^verbatim>\<open>null\<close>, calling something that is no function);
  \<^verbatim>\<open>Thrown\<close> is an \<^verbatim>\<open>Error\<close> object made with \<^verbatim>\<open>new Error(message)\<close>.\<close>

datatype js_error = TypeError | Thrown string

text \<open>\<^verbatim>\<open>if (v)\<close>, \<^verbatim>\<open>!v\<close>, \<^verbatim>\<open>a && b\<close>, \<^verbatim>\<open>a || b\<close> test truthiness.\<close>

fun truthy :: "jsval \<Rightarrow> bool" where
  "truthy Undefined = False"
| "truthy Null = False"
| "truthy (Bool b) = b"
| "truthy (Num n) = (n \<noteq> 0)"
| "truthy (Str s) = (s \<noteq> [])"
| "truthy (Arr _) = True"
| "truthy (Obj _) = True"

text \<open>\<^verbatim>\<open>a && b\<close> and \<^verbatim>\<open>a || b\<close> on already evaluated operands (used where evaluating
  \<^verbatim>\<open>b\<close> cannot raise).\<close>

definition js_and :: "jsval \<Rightarrow> jsval \<Rightarrow> jsval" where
  "js_and a b = (if truthy a then b else a)"

definition js_or :: "jsval \<Rightarrow> jsval \<Rightarrow> jsval" where
  "js_or a b = (if truthy a then a else b)"

text \<open>
  \<^verbatim>\<open>v.name\<close> for the property names this file reads (\<^verbatim>\<open>value\<close>, \<^verbatim>\<open>status\<close>,
  \<^verbatim>\<open>message\<close>, \<^verbatim>\<open>error\<close>, ...): none of them is an array index or a built-in
  property, so primitives and arrays answer \<^verbatim>\<open>undefined\<close>, and \<^verbatim>\<open>undefined\<close> and
  \<^verbatim>\<open>null\<close> raise.
\<close>

fun get_prop :: "jsval \<Rightarrow> string \<Rightarrow> js_error + jsval" where
  "get_prop Undefined k = Inl TypeError"
| "get_prop Null k = Inl TypeError"
| "get_prop (Obj fs) k = Inr (case map_of fs k of None \<Rightarrow> Undefined | Some v \<Rightarrow> v)"
| "get_prop _ k = Inr Undefined"

text \<open>The same read where the receiver is known to be truthy (it was tested by
  \<^verbatim>\<open>&&\<close> just before), so that it cannot raise.\<close>

fun field :: "jsval \<Rightarrow> string \<Rightarrow> jsval" where
  "field (Obj fs) k = (case map_of fs k of None \<Rightarrow> Undefined | Some v \<Rightarrow> v)"
| "field _ k = Undefined"

text \<open>\<^verbatim>\<open>String.prototype.toLowerCase\<close> on the ASCII letters (the prefixes it is
  compared with are ASCII, and no other character lowers to one of their letters) and
  \<^verbatim>\<open>String.prototype.startsWith\<close>, \<^verbatim>\<open>includes\<close>.\<close>

definition lower_char :: "char \<Rightarrow> char" where
  "lower_char c =
     (if (65::nat) \<le> of_char c \<and> of_char c \<le> (90::nat) then char_of (of_char c + (32::nat)) else c)"

definition toLowerCase :: "string \<Rightarrow> string" where
  "toLowerCase s = map lower_char s"

definition startsWith :: "string \<Rightarrow> string \<Rightarrow> bool" where
  "startsWith s p = (take (length p) s = p)"

fun js_includes :: "string \<Rightarrow> string \<Rightarrow> bool" where
  "js_includes [] p = (p = [])"
| "js_includes (c # s) p = (startsWith (c # s) p \<or> js_includes s p)"

section \<open>Response classification: \<^verbatim>\<open>isSuccessfulResponse\<close>\<close>

definition appium_message :: string where
  "appium_message =
     ''An element could not be located on the page using the given search parameters.''"

text \<open>
  The test of lines 90--99. The guard \<^verbatim>\<open>body.value && body.value.message\<close> lets
  every truthy message through to \<^verbatim>\<open>.toLowerCase()\<close>, which exists on strings only:
  for a truthy message of another kind the call raises a \<^verbatim>\<open>TypeError\<close>.
\<close>

definition lazy_element_test :: "jsval \<Rightarrow> js_error + bool" where
  "lazy_element_test body =
     (if field body ''status'' = Num 7 \<and> truthy (field body ''value'')
           \<and> truthy (field (field body ''value'') ''message'')
      then (case field (field body ''value'') ''message'' of
              Str m \<Rightarrow> Inr (startsWith (toLowerCase m) ''no such element''
                             \<or> m = appium_message
                             \<or> startsWith (toLowerCase m) ''unable to find element'')
            | _ \<Rightarrow> Inl TypeError)
      else Inr False)"

definition hasErrorResponse :: "jsval \<Rightarrow> jsval" where
  "hasErrorResponse body =
     js_and (field body ''value'')
       (js_or (field (field body ''value'') ''error'')
          (js_or (field (field body ''value'') ''stackTrace'')
                 (field (field body ''value'') ''stacktrace'')))"

definition isSuccessfulResponse :: "int \<Rightarrow> jsval \<Rightarrow> js_error + bool" where
  "isSuccessfulResponse statusCode body =
     (if \<not> truthy body then Inr False
      else if field body ''value'' = Undefined then Inr False
      else case lazy_element_test body of
        Inl e \<Rightarrow> Inl e
      | Inr lazy \<Rightarrow>
          if lazy then Inr True
          else if truthy (field body ''status'') \<and> field body ''status'' \<noteq> Num 0 then Inr False
          else if statusCode = 200 \<and> \<not> truthy (hasErrorResponse body) then Inr True
          else if statusCode = 404 \<and> truthy (field body ''value'')
                  \<and> field (field body ''value'') ''error'' = Str ''no such element'' then Inr True
          else if truthy (hasErrorResponse body) then Inr False
          else Inr True)"

subsection \<open>The decision list of the specification\<close>

text \<open>
  The specification gives the classifier as seven rules, the first that matches deciding,
  with three outcomes. The definitions below follow its words; a field is present when
  it holds a truthy value, which is how the specification uses the word (a status is
  ``present and non-zero'', a redirect path ``may be empty but must be present'').
\<close>

datatype outcome = Success | SuccessElementMissing | Failure string

definition body_missing :: "jsval \<Rightarrow> bool" where
  "body_missing body = (body = Undefined \<or> body = Null \<or> field body ''value'' = Undefined)"

definition element_missing_message :: "jsval \<Rightarrow> bool" where
  "element_missing_message m =
     (case m of
        Str s \<Rightarrow> startsWith (toLowerCase s) ''no such element''
                 \<or> s = appium_message
                 \<or> startsWith (toLowerCase s) ''unable to find element''
      | _ \<Rightarrow> False)"

definition error_indicator :: "jsval \<Rightarrow> bool" where
  "error_indicator body =
     (truthy (field (field body ''value'') ''error'')
      \<or> truthy (field (field body ''value'') ''stackTrace'')
      \<or> truthy (field (field body ''value'') ''stacktrace''))"

definition classify_spec :: "int \<Rightarrow> jsval \<Rightarrow> outcome" where
  "classify_spec statusCode body =
     (if body_missing body then Failure ''missing body''
      else if field body ''status'' = Num 7
              \<and> element_missing_message (field (field body ''value'') ''message'')
           then SuccessElementMissing
      else if truthy (field body ''status'') then Failure ''non-zero legacy status''
      else if statusCode = 200 \<and> \<not> error_indicator body then Success
      else if statusCode = 404 \<and> field (field body ''value'') ''error'' = Str ''no such element''
           then SuccessElementMissing
      else if error_indicator body then Failure ''response error''
      else Success)"

text \<open>The boolean the source returns: both kinds of success are \<^verbatim>\<open>true\<close>.\<close>

fun succeeded :: "outcome \<Rightarrow> bool" where
  "succeeded Success = True"
| "succeeded SuccessElementMissing = True"
| "succeeded (Failure _) = False"

text \<open>The bodies on which the source's call of \<^verbatim>\<open>toLowerCase\<close> has no string to
  work on.\<close>

definition message_not_string :: "jsval \<Rightarrow> bool" where
  "message_not_string body =
     (truthy body \<and> field body ''value'' \<noteq> Undefined \<and> field body ''status'' = Num 7
      \<and> truthy (field (field body ''value'') ''message'')
      \<and> (case field (field body ''value'') ''message'' of Str _ \<Rightarrow> False | _ \<Rightarrow> True))"

section \<open>Strings of values, property writes, error objects\<close>

text \<open>The decimal digits of a number, as a template literal prints a port (an
  integer below \<open>10\<^sup>2\<^sup>1\<close>).\<close>

definition digit_char :: "nat \<Rightarrow> char" where
  "digit_char d = ''0123456789'' ! d"

function dec_nat :: "nat \<Rightarrow> string" where
  "dec_nat n = (if n < 10 then [digit_char n] else dec_nat (n div 10) @ [digit_char (n mod 10)])"
  by pat_completeness auto
termination
  by (relation "measure id") auto

declare dec_nat.simps [simp del]

definition dec_int :: "int \<Rightarrow> string" where
  "dec_int i = (if i < 0 then CHR ''-'' # dec_nat (nat (- i)) else dec_nat (nat i))"

text \<open>
  JavaScript's conversion of a value to a string, used by template literals, by
  \<^verbatim>\<open>+\<close> on strings and by the \<^verbatim>\<open>Error\<close> constructor: an array prints its elements
  separated by commas, with \<^verbatim>\<open>undefined\<close> and \<^verbatim>\<open>null\<close> elements empty; a plain
  object prints as \<^verbatim>\<open>[object Object]\<close>.
\<close>

fun to_string :: "jsval \<Rightarrow> string"
  and join_elems :: "jsval list \<Rightarrow> string" where
  "to_string Undefined = ''undefined''"
| "to_string Null = ''null''"
| "to_string (Bool b) = (if b then ''true'' else ''false'')"
| "to_string (Num n) = dec_int n"
| "to_string (Str s) = s"
| "to_string (Arr xs) = join_elems xs"
| "to_string (Obj fs) = ''[object Object]''"
| "join_elems [] = []"
| "join_elems (x # xs) =
     (if x = Undefined \<or> x = Null then [] else to_string x)
     @ (if xs = [] then [] else CHR '','' # join_elems xs)"

text \<open>\<^verbatim>\<open>obj.name = v\<close> on an object: an own property keeps its place, a new one is added
  last (\<open>AList.update\<close>).\<close>

definition set_prop :: "(string \<times> jsval) list \<Rightarrow> string \<Rightarrow> jsval \<Rightarrow> (string \<times> jsval) list" where
  "set_prop fs k v = AList.update k v fs"

text \<open>
  An \<^verbatim>\<open>Error\<close> object: its \<^verbatim>\<open>name\<close> (\<^verbatim>\<open>'Error'\<close> unless assigned), its message (a
  string: the constructor converts its argument) and the \<^verbatim>\<open>code\<close> that Node's system
  errors carry (\<^verbatim>\<open>undefined\<close> otherwise).
\<close>

record error_obj =
  err_name :: jsval
  err_message :: string
  err_code :: jsval

definition new_Error :: "jsval \<Rightarrow> error_obj" where
  "new_Error m = \<lparr>err_name = Str ''Error'', err_message = to_string m, err_code = Undefined\<rparr>"

text \<open>\<^verbatim>\<open>x.includes(m)\<close> for a truthy \<^verbatim>\<open>x\<close>: the substring test on a string, membership in
  an array, and a \<^verbatim>\<open>TypeError\<close> (no such method) on everything else.\<close>

fun includes_method :: "jsval \<Rightarrow> string \<Rightarrow> js_error + bool" where
  "includes_method (Str s) m = Inr (js_includes s m)"
| "includes_method (Arr xs) m = Inr (Str m \<in> set xs)"
| "includes_method _ m = Inl TypeError"

section \<open>Session errors: \<^verbatim>\<open>getSessionError\<close>\<close>

definition squote :: string where
  "squote = [CHR 0x27]"

definition dquote :: string where
  "dquote = [CHR 0x22]"

definition newline :: string where
  "newline = [CHR 0x0A]"

definition BROWSER_DRIVER_ERRORS :: "string list" where
  "BROWSER_DRIVER_ERRORS =
     [''unknown command: wd/hub/session'',
      ''HTTP method not allowed'',
      squote @ ''POST /wd/hub/session'' @ squote @ '' was not found.'',
      ''Command not found'']"

definition w3cCapMessage :: string where
  "w3cCapMessage =
     newline @ ''Make sure to add vendor prefix like '' @ dquote @ ''goog:'' @ dquote @ '', '' @ dquote @ ''appium:'' @ dquote
     @ '', '' @ dquote @ ''moz:'' @ dquote @ '', etc to non W3C capabilities.''
     @ newline @ ''See more https://www.w3.org/TR/webdriver/#capabilities''"

definition connection_target :: "(string \<times> jsval) list \<Rightarrow> string" where
  "connection_target params =
     to_string (field (Obj params) ''protocol'') @ ''://'' @ to_string (field (Obj params) ''hostname'')
     @ '':'' @ to_string (field (Obj params) ''port'') @ to_string (field (Obj params) ''path'')"

text \<open>The texts the function returns.\<close>

definition driver_not_running :: "(string \<times> jsval) list \<Rightarrow> string" where
  "driver_not_running params =
     ''Unable to connect to '' @ dquote @ connection_target params
     @ dquote @ '', make sure browser driver is running on that address.''
     @ newline @ ''If you use services like chromedriver see initialiseServices logs above or in wdio.log file as the service might had problems to start the driver.''"

definition wrong_base_path :: string where
  "wrong_base_path =
     ''The browser driver couldn'' @ squote @ ''t start the session. Make sure you have set the ''
     @ dquote @ ''path'' @ dquote @ '' correctly!''"

definition see_logs :: string where
  "see_logs = ''See wdio.* logs for more information.''"

definition standalone_wrong_path :: string where
  "standalone_wrong_path =
     ''It seems you are running a Selenium Standalone server and point to a wrong path. Please set `path: ''
     @ squote @ ''/wd/hub'' @ squote @ ''` in your wdio.conf.js!''"

definition driver_wrong_path :: string where
  "driver_wrong_path =
     ''Make sure to set `path: '' @ squote @ ''/'' @ squote @ ''` in your wdio.conf.js!''"

definition edge_hostname :: string where
  "edge_hostname =
     ''Run edge driver on 127.0.0.1 instead of localhost, ex: --host=127.0.0.1, or set `hostname: ''
     @ squote @ ''localhost'' @ squote @ ''` in your wdio.conf.js''"

definition empty_body_guidance :: string where
  "empty_body_guidance =
     ''Make sure to connect to valid hostname:port or the port is not in use.''
     @ newline @ ''If you use a grid server '' @ w3cCapMessage"

text \<open>
  \<^verbatim>\<open>getSessionError(err, params)\<close>, with \<^verbatim>\<open>err\<close> an \<^verbatim>\<open>Error\<close> as its doc comment
  says (so \<^verbatim>\<open>err.message\<close> is a string and \<^verbatim>\<open>!err.message\<close> is the test for the empty
  one) and \<^verbatim>\<open>params\<close> the properties of the parameters object. The tests come in the
  source's order.
\<close>

definition getSessionError :: "error_obj \<Rightarrow> (string \<times> jsval) list \<Rightarrow> string" where
  "getSessionError err params =
     (if err_code err = Str ''ECONNREFUSED'' then driver_not_running params
      else if err_message err = ''unhandled request'' then wrong_base_path
      else if err_message err = [] then see_logs
      else if js_includes (err_message err) ''Whoops! The URL specified routes to this help page.''
        then standalone_wrong_path
      else if list_ex (\<lambda>m. js_includes (err_message err) m) BROWSER_DRIVER_ERRORS
        then driver_wrong_path
      else if js_includes (err_message err) ''Bad Request - Invalid Hostname''
              \<and> js_includes (err_message err) ''HTTP Error 400''
        then edge_hostname
      else if js_includes (err_message err) ''Illegal key values seen in w3c capabilities''
        then err_message err @ w3cCapMessage
      else if err_message err = ''Response has empty body'' then empty_body_guidance
      else err_message err)"

subsection \<open>The rule table of the specification\<close>

text \<open>
  The specification describes the translation as a list of rules, each a test on the
  transport error with the text to return, tried in order; the first that matches
  decides, and the last one matches always.
\<close>

type_synonym diagnostic_rule = "(error_obj \<Rightarrow> bool) \<times> (error_obj \<Rightarrow> string)"

definition diagnostic_rules :: "(string \<times> jsval) list \<Rightarrow> diagnostic_rule list" where
  "diagnostic_rules params =
     [(\<lambda>err. err_code err = Str ''ECONNREFUSED'', \<lambda>err. driver_not_running params),
      (\<lambda>err. err_message err = ''unhandled request'', \<lambda>err. wrong_base_path),
      (\<lambda>err. err_message err = [], \<lambda>err. see_logs),
      (\<lambda>err. js_includes (err_message err) ''Whoops! The URL specified routes to this help page.'',
       \<lambda>err. standalone_wrong_path),
      (\<lambda>err. list_ex (js_includes (err_message err)) BROWSER_DRIVER_ERRORS,
       \<lambda>err. driver_wrong_path),
      (\<lambda>err. js_includes (err_message err) ''Bad Request - Invalid Hostname''
              \<and> js_includes (err_message err) ''HTTP Error 400'',
       \<lambda>err. edge_hostname),
      (\<lambda>err. js_includes (err_message err) ''Illegal key values seen in w3c capabilities'',
       \<lambda>err. err_message err @ w3cCapMessage),
      (\<lambda>err. err_message err = ''Response has empty body'', \<lambda>err. empty_body_guidance),
      (\<lambda>err. True, \<lambda>err. err_message err)]"

fun first_match :: "diagnostic_rule list \<Rightarrow> error_obj \<Rightarrow> string option" where
  "first_match [] err = None"
| "first_match (r # rs) err = (if fst r err then Some (snd r err) else first_match rs err)"

section \<open>Session creation: \<^verbatim>\<open>startWebDriverSession\<close>\<close>

text \<open>Lines 30--38: the W3C form and the JSONWP form of the requested capabilities.\<close>

definition w3c_jsonwp_caps :: "jsval \<Rightarrow> jsval \<times> jsval" where
  "w3c_jsonwp_caps capabilities =
     (if truthy (js_and capabilities (field capabilities ''alwaysMatch''))
      then (capabilities, field capabilities ''alwaysMatch'')
      else (Obj [(''alwaysMatch'', capabilities), (''firstMatch'', Arr [Obj []])], capabilities))"

text \<open>
  \<^verbatim>\<open>sessionRequest.makeRequest(params)\<close> lives in \<^verbatim>\<open>./request\<close>: it either rejects
  with an \<^verbatim>\<open>Error\<close> or resolves with the decoded response body. It is a parameter here,
  a function of the method, the path and the JSON payload of the request.
\<close>

datatype request_outcome = Rejected error_obj | Resolved jsval

type_synonym make_request = "string \<Rightarrow> string \<Rightarrow> jsval \<Rightarrow> request_outcome"

definition session_payload :: "jsval \<Rightarrow> jsval" where
  "session_payload capabilities =
     Obj [(''capabilities'', fst (w3c_jsonwp_caps capabilities)),
          (''desiredCapabilities'', snd (w3c_jsonwp_caps capabilities))]"

text \<open>
  The function returns the session identifier or raises, and it assigns to the caller's
  \<^verbatim>\<open>params\<close> object: the result is the pair of the outcome and the object afterwards.
  \<^verbatim>\<open>params\<close> is the list of the object's properties.
\<close>

definition startWebDriverSession ::
  "make_request \<Rightarrow> (string \<times> jsval) list \<Rightarrow> (js_error + jsval) \<times> (string \<times> jsval) list" where
  "startWebDriverSession makeRequest params =
     (let w3cCaps = fst (w3c_jsonwp_caps (field (Obj params) ''capabilities''));
          jsonwpCaps = snd (w3c_jsonwp_caps (field (Obj params) ''capabilities''))
      in case makeRequest ''POST'' ''/session'' (session_payload (field (Obj params) ''capabilities'')) of
           Rejected err \<Rightarrow>
             (Inl (Thrown (''Failed to create session.'' @ newline @ getSessionError err params)),
              params)
         | Resolved response \<Rightarrow>
             (case get_prop response ''value'' of
                Inl e \<Rightarrow> (Inl e, params)
              | Inr v \<Rightarrow>
                 (case get_prop v ''sessionId'' of
                    Inl e \<Rightarrow> (Inl e, params)
                  | Inr sid \<Rightarrow>
                      (Inr (js_or sid (field response ''sessionId'')),
                       set_prop
                         (set_prop params ''requestedCapabilities''
                            (Obj [(''w3cCaps'', w3cCaps), (''jsonwpCaps'', jsonwpCaps)]))
                         ''capabilities'' (js_or (field v ''capabilities'') v)))))"

section \<open>Errors from response bodies: \<^verbatim>\<open>getErrorFromResponseBody\<close>\<close>

text \<open>
  The constructor of \<^verbatim>\<open>CustomRequestError\<close>. Reading \<^verbatim>\<open>body.value\<close> raises on
  \<^verbatim>\<open>undefined\<close> and \<^verbatim>\<open>null\<close>; \<^verbatim>\<open>errorObj.message.includes\<close> is called on every
  truthy message once \<^verbatim>\<open>errorObj.error\<close> is falsy.
\<close>

definition CustomRequestError :: "jsval \<Rightarrow> js_error + error_obj" where
  "CustomRequestError body =
     (case get_prop body ''value'' of
        Inl t \<Rightarrow> Inl t
      | Inr v \<Rightarrow>
         (let errorObj = js_or v body;
              e = new_Error (js_or (field errorObj ''message'')
                               (js_or (field errorObj ''class'') (Str ''unknown error'')))
          in if truthy (field errorObj ''error'') then Inr (e\<lparr>err_name := field errorObj ''error''\<rparr>)
             else if truthy (field errorObj ''message'') then
               (case includes_method (field errorObj ''message'') ''stale element reference'' of
                  Inl t \<Rightarrow> Inl t
                | Inr found \<Rightarrow>
                    Inr (if found then e\<lparr>err_name := Str ''stale element reference''\<rparr> else e))
             else Inr e))"

text \<open>\<^verbatim>\<open>typeof v === 'object'\<close> for a truthy \<^verbatim>\<open>v\<close>.\<close>

fun is_object :: "jsval \<Rightarrow> bool" where
  "is_object (Obj _) = True"
| "is_object (Arr _) = True"
| "is_object _ = False"

fun is_string :: "jsval \<Rightarrow> bool" where
  "is_string (Str _) = True"
| "is_string _ = False"

definition getErrorFromResponseBody :: "jsval \<Rightarrow> js_error + error_obj" where
  "getErrorFromResponseBody body =
     (if \<not> truthy body then Inr (new_Error (Str ''Response has empty body''))
      else if is_string body then Inr (new_Error body)
      else if \<not> is_object body then Inr (new_Error (Str ''unknown error''))
      else if \<not> truthy (field body ''value'') \<and> \<not> truthy (field body ''error'')
        then Inr (new_Error (Str ''unknown error''))
      else CustomRequestError body)"

subsection \<open>The error translation of the specification\<close>

text \<open>
  The specification's \<open>toError\<close>, in its words: the empty body, the string body, the
  body that is no object or lacks both \<^verbatim>\<open>value\<close> and \<^verbatim>\<open>error\<close>, and otherwise the
  structured error built from \<^verbatim>\<open>body.value\<close> or \<^verbatim>\<open>body\<close>, whose kind tag is the
  \<^verbatim>\<open>name\<close> of the error object (\<^verbatim>\<open>'Error'\<close> when unset).
\<close>

definition message_contains :: "jsval \<Rightarrow> string \<Rightarrow> bool" where
  "message_contains m sub = (case m of Str s \<Rightarrow> js_includes s sub | _ \<Rightarrow> False)"

definition toError_spec :: "jsval \<Rightarrow> error_obj" where
  "toError_spec body =
     (if \<not> truthy body then new_Error (Str ''Response has empty body'')
      else if is_string body then new_Error body
      else if \<not> is_object body then new_Error (Str ''unknown error'')
      else if \<not> truthy (field body ''value'') \<and> \<not> truthy (field body ''error'')
        then new_Error (Str ''unknown error'')
      else
        (let errorObj = (if truthy (field body ''value'') then field body ''value'' else body);
             message = (if truthy (field errorObj ''message'') then field errorObj ''message''
                        else if truthy (field errorObj ''class'') then field errorObj ''class''
                        else Str ''unknown error'')
         in \<lparr>err_name =
               (if truthy (field errorObj ''error'') then field errorObj ''error''
                else if message_contains (field errorObj ''message'') ''stale element reference''
                  then Str ''stale element reference''
                else Str ''Error''),
             err_message = to_string message,
             err_code = Undefined\<rparr>))"

section \<open>The request: \<^verbatim>\<open>makeRequest\<close>\<close>

text \<open>
  Modelled from the spec: \<^verbatim>\<open>WebDriverRequest.makeRequest\<close> of \<^verbatim>\<open>./request\<close>, which
  \<^verbatim>\<open>utils.js\<close> imports and calls. By the specification the transport offers one
  operation, \<^verbatim>\<open>send(method, urlPath, jsonBody)\<close>, that answers with a status code and a
  decoded body or fails with a transport error; a transport error fails the request with
  that error; to a reply the response classifier is applied, and only a reply it
  classifies as successful (either kind of success, no failure) is handed on, every
  other one failing the request with the error that \<^verbatim>\<open>getErrorFromResponseBody\<close>
  makes of the body. Should the classifier or
  the translation raise, the request fails with the error object of that raise
  (\<open>raised\<close>, whose text is the engine's).
\<close>

datatype send_result = TransportError error_obj | Response int jsval


section \<open>Direct connect: \<^verbatim>\<open>setupDirectConnect\<close>\<close>

text \<open>
  The destructuring of \<^verbatim>\<open>params.capabilities\<close> raises on \<^verbatim>\<open>undefined\<close> and
  \<^verbatim>\<open>null\<close>. The function assigns to \<^verbatim>\<open>params\<close>; the model returns the object
  afterwards.
\<close>

definition setupDirectConnect :: "(string \<times> jsval) list \<Rightarrow> js_error + (string \<times> jsval) list" where
  "setupDirectConnect params =
     (case get_prop (field (Obj params) ''capabilities'') ''directConnectProtocol'' of
        Inl e \<Rightarrow> Inl e
      | Inr directConnectProtocol \<Rightarrow>
          (let directConnectHost = field (field (Obj params) ''capabilities'') ''directConnectHost'';
               directConnectPort = field (field (Obj params) ''capabilities'') ''directConnectPort'';
               directConnectPath = field (field (Obj params) ''capabilities'') ''directConnectPath''
           in if truthy directConnectProtocol \<and> truthy directConnectHost \<and> truthy directConnectPort
                 \<and> (truthy directConnectPath \<or> directConnectPath = Str [])
              then Inr (set_prop (set_prop (set_prop (set_prop params
                          ''protocol'' directConnectProtocol)
                          ''hostname'' directConnectHost)
                          ''port'' directConnectPort)
                          ''path'' directConnectPath)
              else Inr params))"

text \<open>The resolved capabilities carry the whole redirect: a truthy protocol, host and port,
  and a path that is truthy or the empty string.\<close>

definition direct_connect_complete :: "jsval \<Rightarrow> bool" where
  "direct_connect_complete caps =
     (truthy (field caps ''directConnectProtocol'') \<and> truthy (field caps ''directConnectHost'')
      \<and> truthy (field caps ''directConnectPort'')
      \<and> (truthy (field caps ''directConnectPath'') \<or> field caps ''directConnectPath'' = Str []))"

section \<open>The command surface: \<^verbatim>\<open>getPrototype\<close>\<close>

text \<open>
  A protocol table of \<^verbatim>\<open>@wdio/protocols\<close> is an object from endpoints to objects from
  HTTP methods to command descriptors; a descriptor declares its \<^verbatim>\<open>command\<close> name
  and carries further members (description, parameters, ...), kept here as one value of
  a type parameter. Objects are lists of members in insertion order, which is the order
  \<^verbatim>\<open>Object.entries\<close> and lodash walk them in as long as no key is an array index
  (a canonical numeric string such as \<^verbatim>\<open>'7'\<close>; JavaScript visits those first, in
  ascending order). Endpoints start with a slash and methods are HTTP verbs.
\<close>

record 'd descriptor =
  command :: string
  details :: 'd

type_synonym 'd methods = "(string \<times> 'd descriptor) list"

type_synonym 'd protocol = "(string \<times> 'd methods) list"

text \<open>
  \<^verbatim>\<open>merge\<close> is lodash's: \<^verbatim>\<open>merge(object, ...sources)\<close> merges the own members of each
  source, in order, into \<^verbatim>\<open>object\<close>, recursively where both sides hold an object; it
  \<^emph>\<open>mutates\<close> \<^verbatim>\<open>object\<close> and returns it, and it copies what it takes from a source.
  A member that \<^verbatim>\<open>object\<close> has keeps its place and a new member is added last. On
  two descriptors the \<^verbatim>\<open>command\<close> of the source replaces that of the destination, and
  the remaining members are merged by lodash in turn: \<open>merge_details\<close>, a parameter.
\<close>

fun merge_entries ::
  "('v \<Rightarrow> 'v \<Rightarrow> 'v) \<Rightarrow> (string \<times> 'v) list \<Rightarrow> (string \<times> 'v) list \<Rightarrow> (string \<times> 'v) list" where
  "merge_entries f object [] = object"
| "merge_entries f object ((key, srcValue) # source) =
     merge_entries f
       (AList.update key
          (case map_of object key of None \<Rightarrow> srcValue | Some objValue \<Rightarrow> f objValue srcValue)
          object)
       source"

definition merge_descriptor :: "('d \<Rightarrow> 'd \<Rightarrow> 'd) \<Rightarrow> 'd descriptor \<Rightarrow> 'd descriptor \<Rightarrow> 'd descriptor" where
  "merge_descriptor merge_details objValue srcValue =
     \<lparr>command = command srcValue, details = merge_details (details objValue) (details srcValue)\<rparr>"

definition merge_methods :: "('d \<Rightarrow> 'd \<Rightarrow> 'd) \<Rightarrow> 'd methods \<Rightarrow> 'd methods \<Rightarrow> 'd methods" where
  "merge_methods merge_details = merge_entries (merge_descriptor merge_details)"

definition merge_protocol :: "('d \<Rightarrow> 'd \<Rightarrow> 'd) \<Rightarrow> 'd protocol \<Rightarrow> 'd protocol \<Rightarrow> 'd protocol" where
  "merge_protocol merge_details = merge_entries (merge_methods merge_details)"

text \<open>\<^verbatim>\<open>merge(object, s1, ..., sn)\<close>: the value of \<^verbatim>\<open>object\<close> afterwards, which is also
  what the call returns.\<close>

definition lodash_merge :: "('d \<Rightarrow> 'd \<Rightarrow> 'd) \<Rightarrow> 'd protocol \<Rightarrow> 'd protocol list \<Rightarrow> 'd protocol" where
  "lodash_merge merge_details object sources = foldl (merge_protocol merge_details) object sources"

text \<open>The seven imported tables are module-level objects shared by all calls: they are
  the state \<^verbatim>\<open>getPrototype\<close> runs in.\<close>

record 'd protocols =
  WebDriverProtocol :: "'d protocol"
  MJsonWProtocol :: "'d protocol"
  JsonWProtocol :: "'d protocol"
  AppiumProtocol :: "'d protocol"
  ChromiumProtocol :: "'d protocol"
  SauceLabsProtocol :: "'d protocol"
  SeleniumProtocol :: "'d protocol"

record flags =
  isW3C :: bool
  isChrome :: bool
  isMobile :: bool
  isSauce :: bool
  isSeleniumStandalone :: bool

text \<open>The sources of the outer \<^verbatim>\<open>merge\<close> call, lines 157--170; an unselected table
  contributes the empty object.\<close>

definition extension_sources :: "('d \<Rightarrow> 'd \<Rightarrow> 'd) \<Rightarrow> flags \<Rightarrow> 'd protocols \<Rightarrow> 'd protocol list" where
  "extension_sources merge_details fl tables =
     [if isMobile fl
        then lodash_merge merge_details [] [MJsonWProtocol tables, AppiumProtocol tables] else [],
      if isChrome fl then ChromiumProtocol tables else [],
      if isSauce fl then SauceLabsProtocol tables else [],
      if isSeleniumStandalone fl then SeleniumProtocol tables else []]"

text \<open>
  The first argument of the outer call is the destination that lodash mutates: a fresh
  object for a mobile session, and otherwise the imported \<^verbatim>\<open>WebDriverProtocol\<close> or
  \<^verbatim>\<open>JsonWProtocol\<close> object itself.
\<close>

definition ProtocolCommands :: "('d \<Rightarrow> 'd \<Rightarrow> 'd) \<Rightarrow> flags \<Rightarrow> 'd protocols \<Rightarrow> 'd protocol" where
  "ProtocolCommands merge_details fl tables =
     lodash_merge merge_details
       (if isMobile fl
          then lodash_merge merge_details [] [JsonWProtocol tables, WebDriverProtocol tables]
        else if isW3C fl then WebDriverProtocol tables
        else JsonWProtocol tables)
       (extension_sources merge_details fl tables)"

definition tables_after :: "('d \<Rightarrow> 'd \<Rightarrow> 'd) \<Rightarrow> flags \<Rightarrow> 'd protocols \<Rightarrow> 'd protocols" where
  "tables_after merge_details fl tables =
     (if isMobile fl then tables
      else if isW3C fl
        then tables\<lparr>WebDriverProtocol := ProtocolCommands merge_details fl tables\<rparr>
      else tables\<lparr>JsonWProtocol := ProtocolCommands merge_details fl tables\<rparr>)"

text \<open>
  Lines 173--177. \<^verbatim>\<open>command(method, endpoint, commandData, isSeleniumStandalone)\<close>
  comes from \<^verbatim>\<open>./command\<close> and is a parameter. Assigning
  \<^verbatim>\<open>prototype[commandData.command]\<close> replaces an entry of that name.
\<close>

definition register_methods ::
  "(string \<Rightarrow> string \<Rightarrow> 'd descriptor \<Rightarrow> bool \<Rightarrow> 'c) \<Rightarrow> bool \<Rightarrow> string \<Rightarrow> 'd methods
     \<Rightarrow> (string \<times> 'c) list \<Rightarrow> (string \<times> 'c) list" where
  "register_methods cmd standalone endpoint methods prototype =
     fold (\<lambda>(method, commandData).
             AList.update (command commandData) (cmd method endpoint commandData standalone))
       methods prototype"

definition register_commands ::
  "(string \<Rightarrow> string \<Rightarrow> 'd descriptor \<Rightarrow> bool \<Rightarrow> 'c) \<Rightarrow> bool \<Rightarrow> 'd protocol \<Rightarrow> (string \<times> 'c) list" where
  "register_commands cmd standalone protocolCommands =
     fold (\<lambda>(endpoint, methods). register_methods cmd standalone endpoint methods)
       protocolCommands []"

text \<open>The returned prototype, and the imported tables after the call.\<close>

definition getPrototype ::
  "(string \<Rightarrow> string \<Rightarrow> 'd descriptor \<Rightarrow> bool \<Rightarrow> 'c) \<Rightarrow> ('d \<Rightarrow> 'd \<Rightarrow> 'd) \<Rightarrow> flags \<Rightarrow> 'd protocols
     \<Rightarrow> (string \<times> 'c) list \<times> 'd protocols" where
  "getPrototype cmd merge_details fl tables =
     (register_commands cmd (isSeleniumStandalone fl) (ProtocolCommands merge_details fl tables),
      tables_after merge_details fl tables)"

subsection \<open>The layers of the specification\<close>














section \<open>Properties\<close>

subsection \<open>Reading properties\<close>

lemma truthy_field: "truthy (field v k) \<Longrightarrow> truthy v"
  by (cases v) auto

lemma falsy_field: "\<not> truthy v \<Longrightarrow> field v k = Undefined"
  by (cases v) auto

lemma hasErrorResponse_indicator: "truthy (hasErrorResponse body) = error_indicator body"
proof (cases "truthy (field body ''value'')")
  case True
  then show ?thesis
    by (simp add: hasErrorResponse_def error_indicator_def js_and_def js_or_def)
next
  case False
  then have "\<And>k. field (field body ''value'') k = Undefined" by (rule falsy_field)
  with False show ?thesis
    by (simp add: hasErrorResponse_def error_indicator_def js_and_def)
qed

lemma startsWith_Nil: "startsWith (toLowerCase []) p = (p = [])"
  unfolding startsWith_def toLowerCase_def by (cases p) simp_all

lemma element_missing_message_truthy: "element_missing_message m \<Longrightarrow> truthy m"
proof (cases m)
  case (Str s)
  assume "element_missing_message m"
  with Str have "s \<noteq> []"
    unfolding element_missing_message_def
    by (cases s) (simp_all add: startsWith_Nil appium_message_def)
  with Str show ?thesis by simp
qed (simp_all add: element_missing_message_def)


subsection \<open>The classifier against the decision list\<close>

text \<open>
  Wherever the source returns, it returns what the seven rules prescribe, in their order;
  it raises exactly on the bodies of \<open>message_not_string\<close>.
\<close>

lemma lazy_element_test_cases: "lazy_element_test body =
   (if field body ''status'' = Num 7 \<and> truthy (field (field body ''value'') ''message'')
        \<and> (case field (field body ''value'') ''message'' of Str _ \<Rightarrow> False | _ \<Rightarrow> True)
    then Inl TypeError
    else Inr (field body ''status'' = Num 7
              \<and> element_missing_message (field (field body ''value'') ''message'')))"
proof (cases "truthy (field (field body ''value'') ''message'')")
  case True
  then have v: "truthy (field body ''value'')" by (rule truthy_field)
  show ?thesis
    unfolding lazy_element_test_def element_missing_message_def
    using True v by (simp split: jsval.split)
next
  case False
  then have "\<not> element_missing_message (field (field body ''value'') ''message'')"
    using element_missing_message_truthy by blast
  with False show ?thesis
    unfolding lazy_element_test_def by simp
qed

lemma isSuccessfulResponse_classify_spec: "isSuccessfulResponse sc body =
   (if message_not_string body then Inl TypeError else Inr (succeeded (classify_spec sc body)))"
proof (cases "truthy body")
  case False
  then have "field body ''value'' = Undefined" by (rule falsy_field)
  with False show ?thesis
    by (simp add: isSuccessfulResponse_def classify_spec_def message_not_string_def body_missing_def)
next
  case True
  then have nn: "body \<noteq> Undefined" "body \<noteq> Null" by auto
  show ?thesis
  proof (cases "field body ''value'' = Undefined")
    case u: True
    with True show ?thesis
      by (simp add: isSuccessfulResponse_def classify_spec_def message_not_string_def body_missing_def)
  next
    case d: False
    have tv: "field (field body ''value'') ''error'' = Str ''no such element'' \<Longrightarrow> truthy (field body ''value'')"
      using falsy_field[of "field body ''value''" "''error''"] by auto
    have bm: "\<not> body_missing body" using nn d by (simp add: body_missing_def)
    have mns: "message_not_string body = (field body ''status'' = Num 7
      \<and> truthy (field (field body ''value'') ''message'')
      \<and> (case field (field body ''value'') ''message'' of Str _ \<Rightarrow> False | _ \<Rightarrow> True))"
      using True d by (simp add: message_not_string_def)
    show ?thesis
    proof (cases "message_not_string body")
      case m: True
      then show ?thesis using True d unfolding mns
        by (simp add: isSuccessfulResponse_def lazy_element_test_cases)
    next
      case m: False
      then have lz: "lazy_element_test body = Inr (field body ''status'' = Num 7
              \<and> element_missing_message (field (field body ''value'') ''message''))"
        unfolding mns lazy_element_test_cases by simp
      show ?thesis
      proof (cases "field body ''status'' = Num 7
              \<and> element_missing_message (field (field body ''value'') ''message'')")
        case l: True
        then show ?thesis using True d m bm lz
          by (simp add: isSuccessfulResponse_def classify_spec_def)
      next
        case l: False
        have st: "truthy (field body ''status'') \<Longrightarrow> field body ''status'' \<noteq> Num 0" by auto
        show ?thesis using True d m bm lz l tv st
          by (auto simp add: isSuccessfulResponse_def classify_spec_def hasErrorResponse_indicator)
      qed
    qed
  qed
qed

text \<open>The examples of the specification, and a 404 whose error is not the missing
  element.\<close>

lemma isSuccessfulResponse_examples:
  "isSuccessfulResponse 200 (Obj [(''value'', Obj [])]) = Inr True"
  "isSuccessfulResponse 200 (Obj [(''value'', Obj [(''error'', Str ''no such element'')])]) = Inr False"
  "isSuccessfulResponse 404 (Obj [(''value'', Obj [(''error'', Str ''no such element'')])]) = Inr True"
  "isSuccessfulResponse 404 (Obj [(''value'', Obj [(''error'', Str ''unknown command'')])]) = Inr False"
  "isSuccessfulResponse 500
     (Obj [(''status'', Num 7), (''value'', Obj [(''message'', Str ''No such element: xyz'')])]) = Inr True"
  "isSuccessfulResponse 200
     (Obj [(''status'', Num 13), (''value'', Obj [(''message'', Str ''boom'')])]) = Inr False"
  "isSuccessfulResponse 200 Undefined = Inr False"
  by code_simp+

text \<open>
  C1. The classifier is to equal the seven-rule decision list on every status code and
  body. At legacy status 7 with the message \<^verbatim>\<open>true\<close> the list answers by its third
  rule (a non-zero legacy status fails), while the source raises a \<^verbatim>\<open>TypeError\<close>
  from \<^verbatim>\<open>toLowerCase\<close> and returns nothing.
\<close>

theorem isSuccessfulResponse_differs_from_classify_spec:
  "isSuccessfulResponse 500
     (Obj [(''status'', Num 7), (''value'', Obj [(''message'', Bool True)])]) = Inl TypeError
   \<and> classify_spec 500
     (Obj [(''status'', Num 7), (''value'', Obj [(''message'', Bool True)])])
       = Failure ''non-zero legacy status''"
  by (simp add: isSuccessfulResponse_def lazy_element_test_def classify_spec_def
        body_missing_def element_missing_message_def)


text \<open>
  C8. The classifier is meant never to raise. It does raise: with legacy status 7 and a
  truthy \<^verbatim>\<open>value.message\<close> that is not a string (here the number 123), the call
  \<^verbatim>\<open>body.value.message.toLowerCase()\<close> is a \<^verbatim>\<open>TypeError\<close>.
\<close>

theorem isSuccessfulResponse_raises_on_number_message:
  "isSuccessfulResponse 200
     (Obj [(''status'', Num 7), (''value'', Obj [(''message'', Num 123)])]) = Inl TypeError"
  by (simp add: isSuccessfulResponse_def lazy_element_test_def)

subsection \<open>Capability forms\<close>

text \<open>
  C2, as the claim states it: an input that has an \<^verbatim>\<open>alwaysMatch\<close> field is to be the
  structured form unchanged. The source tests the field for truthiness: an input whose
  \<^verbatim>\<open>alwaysMatch\<close> is \<^verbatim>\<open>null\<close> has the field and is wrapped all the same.
\<close>

theorem w3c_jsonwp_caps_null_alwaysMatch_wrapped:
  "w3c_jsonwp_caps (Obj [(''alwaysMatch'', Null), (''browserName'', Str ''chrome'')])
     = (Obj [(''alwaysMatch'', Obj [(''alwaysMatch'', Null), (''browserName'', Str ''chrome'')]),
             (''firstMatch'', Arr [Obj []])],
        Obj [(''alwaysMatch'', Null), (''browserName'', Str ''chrome'')])"
  by (simp add: w3c_jsonwp_caps_def js_and_def)

text \<open>
  C2, amended. For every input: when its \<^verbatim>\<open>alwaysMatch\<close> member is truthy (every
  object is), the structured form is the input unchanged and the legacy form is that
  member; in every other case (no such member, a member holding \<^verbatim>\<open>null\<close>,
  \<^verbatim>\<open>false\<close>, \<^verbatim>\<open>0\<close> or the empty string, an input that is no object) the structured
  form is \<^verbatim>\<open>{alwaysMatch: input, firstMatch: [{}]}\<close> and the legacy form is the input
  unchanged.
\<close>

theorem w3c_jsonwp_caps_dual_form:
  "w3c_jsonwp_caps caps
     = (if truthy (field caps ''alwaysMatch'') then (caps, field caps ''alwaysMatch'')
        else (Obj [(''alwaysMatch'', caps), (''firstMatch'', Arr [Obj []])], caps))"
proof (cases "truthy caps")
  case True
  then show ?thesis by (simp add: w3c_jsonwp_caps_def js_and_def)
next
  case False
  then have "field caps ''alwaysMatch'' = Undefined" by (rule falsy_field)
  with False show ?thesis by (simp add: w3c_jsonwp_caps_def js_and_def)
qed

theorem w3c_jsonwp_caps_dual_form_witness:
  "w3c_jsonwp_caps (Obj [(''alwaysMatch'', Obj [(''browserName'', Str ''chrome'')])])
     = (Obj [(''alwaysMatch'', Obj [(''browserName'', Str ''chrome'')])],
        Obj [(''browserName'', Str ''chrome'')])
   \<and> w3c_jsonwp_caps (Obj [(''browserName'', Str ''chrome'')])
     = (Obj [(''alwaysMatch'', Obj [(''browserName'', Str ''chrome'')]), (''firstMatch'', Arr [Obj []])],
        Obj [(''browserName'', Str ''chrome'')])
   \<and> w3c_jsonwp_caps Undefined
     = (Obj [(''alwaysMatch'', Undefined), (''firstMatch'', Arr [Obj []])], Undefined)"
  using w3c_jsonwp_caps_dual_form [of "Obj [(''alwaysMatch'', Obj [(''browserName'', Str ''chrome'')])]"]
    w3c_jsonwp_caps_dual_form [of "Obj [(''browserName'', Str ''chrome'')]"]
    w3c_jsonwp_caps_dual_form [of Undefined]
  by simp

subsection \<open>Translating transport errors\<close>

lemma dec_nat_9515: "dec_nat 9515 = ''9515''"
  by (simp add: dec_nat.simps digit_char_def)

lemma startsWith_Nil_left: "startsWith [] p = (p = [])"
  unfolding startsWith_def by (cases p) simp_all

lemma startsWith_append: "startsWith (p @ ys) p"
  unfolding startsWith_def by simp

lemma startsWith_js_includes:
  assumes "startsWith s p"
  shows "js_includes s p"
proof (cases s)
  case Nil
  with assms show ?thesis by (simp add: startsWith_Nil_left)
next
  case (Cons c t)
  with assms show ?thesis by simp
qed

lemma js_includes_prefix: "js_includes (p @ ys) p"
  by (rule startsWith_js_includes) (rule startsWith_append)

lemma js_includes_append: "js_includes (xs @ p @ ys) p"
proof (induction xs)
  case Nil
  show ?case using js_includes_prefix[of p ys] by simp
next
  case (Cons a xs)
  then show ?case by simp
qed

lemma first_match_Cons:
  "first_match ((p, t) # rs) err = (if p err then Some (t err) else first_match rs err)"
  by simp

text \<open>
  C10. \<^verbatim>\<open>getSessionError\<close> returns what the first matching rule of the table gives, the
  rules tried in the stated order. For a refused connection to
  \<^verbatim>\<open>{protocol: 'http', hostname: 'localhost', port: 9515, path: '/'}\<close> the returned text
  contains \<^verbatim>\<open>http://localhost:9515/\<close>.
\<close>

theorem getSessionError_first_match:
  "first_match (diagnostic_rules params) err = Some (getSessionError err params)
   \<and> js_includes
        (getSessionError \<lparr>err_name = Str ''Error'', err_message = ''connect ECONNREFUSED'',
                          err_code = Str ''ECONNREFUSED''\<rparr>
           [(''protocol'', Str ''http''), (''hostname'', Str ''localhost''),
            (''port'', Num 9515), (''path'', Str ''/'')])
        ''http://localhost:9515/''"
proof
  show "first_match (diagnostic_rules params) err = Some (getSessionError err params)"
    unfolding diagnostic_rules_def getSessionError_def
    by (simp only: first_match_Cons if_True if_distrib[where f=Some])
  have t: "connection_target [(''protocol'', Str ''http''), (''hostname'', Str ''localhost''),
            (''port'', Num 9515), (''path'', Str ''/'')] = ''http://localhost:9515/''"
    by (simp add: connection_target_def dec_int_def dec_nat_9515)
  have "js_includes ((''Unable to connect to '' @ dquote) @ ''http://localhost:9515/'' @
      (dquote @ '', make sure browser driver is running on that address.''
     @ newline @ ''If you use services like chromedriver see initialiseServices logs above or in wdio.log file as the service might had problems to start the driver.''))
      ''http://localhost:9515/''"
    by (rule js_includes_append)
  then show "js_includes
        (getSessionError \<lparr>err_name = Str ''Error'', err_message = ''connect ECONNREFUSED'',
                          err_code = Str ''ECONNREFUSED''\<rparr>
           [(''protocol'', Str ''http''), (''hostname'', Str ''localhost''),
            (''port'', Num 9515), (''path'', Str ''/'')])
        ''http://localhost:9515/''"
    unfolding getSessionError_def driver_not_running_def t
    by (simp only: error_obj.simps if_True append_assoc simp_thms(6))
qed

subsection \<open>Session creation\<close>

lemma get_prop_field: "v \<noteq> Undefined \<Longrightarrow> v \<noteq> Null \<Longrightarrow> get_prop v k = Inr (field v k)"
  by (cases v) auto

lemma field_defined_obj: "field r k \<noteq> Undefined \<Longrightarrow> r \<noteq> Undefined \<and> r \<noteq> Null"
  by (cases r) auto

lemma field_set_prop: "field (Obj (set_prop fs k v)) k' = (if k' = k then v else field (Obj fs) k')"
  by (simp add: set_prop_def update_conv')

lemma map_of_set_prop: "map_of (set_prop fs k v) k' = (if k' = k then Some v else map_of fs k')"
  by (simp add: set_prop_def update_conv')

text \<open>
  C4, as the claim states it: the identifier is to be extracted from every body, that of
  the flat envelope \<^verbatim>\<open>{sessionId}\<close> included, as \<^verbatim>\<open>response.value.sessionId\<close> if
  present and \<^verbatim>\<open>response.sessionId\<close> otherwise, and the capabilities as
  \<^verbatim>\<open>response.value.capabilities\<close> if present. The source reads
  \<^verbatim>\<open>response.value.sessionId\<close> first: on a body without \<^verbatim>\<open>value\<close>, and on one
  whose \<^verbatim>\<open>value\<close> is \<^verbatim>\<open>null\<close> (which the classifier accepts at status 200), that read
  raises a \<^verbatim>\<open>TypeError\<close> and no identifier is extracted. And the source tests with
  \<^verbatim>\<open>||\<close>: a \<^verbatim>\<open>value.sessionId\<close> that is present and the empty string gives way to
  \<^verbatim>\<open>response.sessionId\<close>, and present but empty \<^verbatim>\<open>value.capabilities\<close> give way to
  \<^verbatim>\<open>response.value\<close>.
\<close>

theorem startWebDriverSession_raises_without_value:
  "fst (startWebDriverSession (\<lambda>method path payload. Resolved (Obj [(''sessionId'', Str ''abc123'')]))
          [(''capabilities'', Obj [(''browserName'', Str ''chrome'')])]) = Inl TypeError
   \<and> isSuccessfulResponse 200 (Obj [(''sessionId'', Str ''abc123''), (''value'', Null)]) = Inr True
   \<and> fst (startWebDriverSession
          (\<lambda>method path payload. Resolved (Obj [(''sessionId'', Str ''abc123''), (''value'', Null)]))
          [(''capabilities'', Obj [(''browserName'', Str ''chrome'')])]) = Inl TypeError
   \<and> fst (startWebDriverSession
          (\<lambda>method path payload. Resolved
             (Obj [(''sessionId'', Str ''abc123''), (''value'', Obj [(''sessionId'', Str [])])]))
          [(''capabilities'', Obj [(''browserName'', Str ''chrome'')])]) = Inr (Str ''abc123'')
   \<and> field (Obj (snd (startWebDriverSession
          (\<lambda>method path payload. Resolved
             (Obj [(''value'', Obj [(''sessionId'', Str ''abc123''), (''capabilities'', Str [])])]))
          [(''capabilities'', Obj [(''browserName'', Str ''chrome'')])]))) ''capabilities''
       = Obj [(''sessionId'', Str ''abc123''), (''capabilities'', Str [])]"
  by (simp add: startWebDriverSession_def isSuccessfulResponse_def lazy_element_test_def
        hasErrorResponse_def js_and_def js_or_def set_prop_def)

text \<open>
  C4, amended. For every response whose \<^verbatim>\<open>value\<close> is neither \<^verbatim>\<open>undefined\<close> nor
  \<^verbatim>\<open>null\<close>, the session identifier is \<^verbatim>\<open>response.value.sessionId\<close> when that is
  truthy and \<^verbatim>\<open>response.sessionId\<close> otherwise, and the recorded capabilities are
  \<^verbatim>\<open>response.value.capabilities\<close> when truthy and \<^verbatim>\<open>response.value\<close> otherwise. So
  a truthy identifier that the server wraps as \<^verbatim>\<open>{value: {sessionId}}\<close> is extracted,
  and so is the identifier of a flat envelope \<^verbatim>\<open>{sessionId, value}\<close> whose
  \<^verbatim>\<open>value\<close> carries no truthy \<^verbatim>\<open>sessionId\<close> of its own.
\<close>

theorem startWebDriverSession_extraction:
  assumes "makeRequest ''POST'' ''/session'' (session_payload (field (Obj params) ''capabilities''))
             = Resolved response"
    and "field response ''value'' = v" and "v \<noteq> Undefined" and "v \<noteq> Null"
  shows "fst (startWebDriverSession makeRequest params)
           = Inr (if truthy (field v ''sessionId'') then field v ''sessionId''
                  else field response ''sessionId'')
         \<and> field (Obj (snd (startWebDriverSession makeRequest params))) ''capabilities''
           = (if truthy (field v ''capabilities'') then field v ''capabilities'' else v)
         \<and> (truthy s \<and> field v ''sessionId'' = s \<longrightarrow>
              fst (startWebDriverSession makeRequest params) = Inr s)
         \<and> (\<not> truthy (field v ''sessionId'') \<and> field response ''sessionId'' = s \<longrightarrow>
              fst (startWebDriverSession makeRequest params) = Inr s)"
proof -
  from assms(2,3) have "response \<noteq> Undefined \<and> response \<noteq> Null"
    using field_defined_obj by blast
  then have r: "get_prop response ''value'' = Inr v"
    using assms(2) by (simp add: get_prop_field)
  have g: "get_prop v ''sessionId'' = Inr (field v ''sessionId'')"
    using assms(3,4) by (rule get_prop_field)
  have i: "fst (startWebDriverSession makeRequest params)
           = Inr (if truthy (field v ''sessionId'') then field v ''sessionId''
                  else field response ''sessionId'')"
    using assms(1) r g
    by (simp add: startWebDriverSession_def Let_def js_or_def del: field.simps)
  have c: "field (Obj (snd (startWebDriverSession makeRequest params))) ''capabilities''
           = (if truthy (field v ''capabilities'') then field v ''capabilities'' else v)"
    using assms(1) r g
    by (simp add: startWebDriverSession_def Let_def js_or_def field_set_prop del: field.simps)
  from i c show ?thesis by simp
qed

theorem startWebDriverSession_extraction_witness:
  "fst (startWebDriverSession (\<lambda>m p b. Resolved (Obj [(''value'', Obj [(''sessionId'', Str ''abc123''),
       (''capabilities'', Obj [(''browserName'', Str ''chrome'')])])]))
       [(''capabilities'', Obj [(''browserName'', Str ''chrome'')])]) = Inr (Str ''abc123'')
   \<and> fst (startWebDriverSession (\<lambda>m p b. Resolved (Obj [(''sessionId'', Str ''abc123''),
       (''status'', Num 0), (''value'', Obj [(''browserName'', Str ''chrome'')])]))
       [(''capabilities'', Obj [(''browserName'', Str ''chrome'')])]) = Inr (Str ''abc123'')"
  using startWebDriverSession_extraction
    [of "\<lambda>m p b. Resolved (Obj [(''value'', Obj [(''sessionId'', Str ''abc123''),
       (''capabilities'', Obj [(''browserName'', Str ''chrome'')])])])"
       "[(''capabilities'', Obj [(''browserName'', Str ''chrome'')])]"
       "Obj [(''value'', Obj [(''sessionId'', Str ''abc123''),
       (''capabilities'', Obj [(''browserName'', Str ''chrome'')])])]"
       "Obj [(''sessionId'', Str ''abc123''),
       (''capabilities'', Obj [(''browserName'', Str ''chrome'')])]"
       "Str ''abc123''"]
    startWebDriverSession_extraction
    [of "\<lambda>m p b. Resolved (Obj [(''sessionId'', Str ''abc123''),
       (''status'', Num 0), (''value'', Obj [(''browserName'', Str ''chrome'')])])"
       "[(''capabilities'', Obj [(''browserName'', Str ''chrome'')])]"
       "Obj [(''sessionId'', Str ''abc123''),
       (''status'', Num 0), (''value'', Obj [(''browserName'', Str ''chrome'')])]"
       "Obj [(''browserName'', Str ''chrome'')]"
       "Str ''abc123''"]
  by simp





subsection \<open>Direct connect\<close>

text \<open>
  C7. With resolved capabilities that can be destructured, the rewrite happens exactly
  when they carry the whole redirect (\<open>direct_connect_complete\<close>: protocol, host and
  port truthy, the path truthy or the empty string). Then \<^verbatim>\<open>protocol\<close>,
  \<^verbatim>\<open>hostname\<close>, \<^verbatim>\<open>port\<close> and \<^verbatim>\<open>path\<close> hold the four redirect values and every other
  property of \<^verbatim>\<open>params\<close> is as before; otherwise \<^verbatim>\<open>params\<close> is unchanged.
\<close>

theorem setupDirectConnect_rewrite:
  assumes "field (Obj params) ''capabilities'' = caps" and "caps \<noteq> Undefined" and "caps \<noteq> Null"
  shows "\<exists>params'. setupDirectConnect params = Inr params'
     \<and> (direct_connect_complete caps \<longrightarrow>
          field (Obj params') ''protocol'' = field caps ''directConnectProtocol''
          \<and> field (Obj params') ''hostname'' = field caps ''directConnectHost''
          \<and> field (Obj params') ''port'' = field caps ''directConnectPort''
          \<and> field (Obj params') ''path'' = field caps ''directConnectPath''
          \<and> (\<forall>k. k \<notin> {''protocol'', ''hostname'', ''port'', ''path''} \<longrightarrow>
                 map_of params' k = map_of params k))
     \<and> (\<not> direct_connect_complete caps \<longrightarrow> params' = params)"
proof -
  have g: "get_prop (field (Obj params) ''capabilities'') ''directConnectProtocol''
             = Inr (field caps ''directConnectProtocol'')"
    using assms by (simp add: get_prop_field del: field.simps)
  show ?thesis
  proof (cases "direct_connect_complete caps")
    case True
    then have "setupDirectConnect params =
       Inr (set_prop (set_prop (set_prop (set_prop params
                          ''protocol'' (field caps ''directConnectProtocol''))
                          ''hostname'' (field caps ''directConnectHost''))
                          ''port'' (field caps ''directConnectPort''))
                          ''path'' (field caps ''directConnectPath''))"
      using g assms(1) unfolding setupDirectConnect_def direct_connect_complete_def
      by (simp add: Let_def del: field.simps)
    with True show ?thesis
      by (simp add: field_set_prop map_of_set_prop del: field.simps)
  next
    case False
    then have "setupDirectConnect params = Inr params"
      using g assms(1) unfolding setupDirectConnect_def direct_connect_complete_def
      by (auto simp add: Let_def simp del: field.simps)
    with False show ?thesis by simp
  qed
qed

theorem setupDirectConnect_rewrite_witness:
  "setupDirectConnect
     [(''hostname'', Str ''hub''), (''port'', Num 4444), (''logLevel'', Str ''info''),
      (''capabilities'', Obj [(''directConnectProtocol'', Str ''https''),
         (''directConnectHost'', Str ''node1''), (''directConnectPort'', Num 5555),
         (''directConnectPath'', Str [])])]
   = Inr [(''hostname'', Str ''node1''), (''port'', Num 5555), (''logLevel'', Str ''info''),
      (''capabilities'', Obj [(''directConnectProtocol'', Str ''https''),
         (''directConnectHost'', Str ''node1''), (''directConnectPort'', Num 5555),
         (''directConnectPath'', Str [])]),
      (''protocol'', Str ''https''), (''path'', Str [])]
   \<and> setupDirectConnect
     [(''hostname'', Str ''hub''),
      (''capabilities'', Obj [(''directConnectProtocol'', Str ''https''),
         (''directConnectHost'', Str ''node1''), (''directConnectPort'', Num 5555)])]
   = Inr [(''hostname'', Str ''hub''),
      (''capabilities'', Obj [(''directConnectProtocol'', Str ''https''),
         (''directConnectHost'', Str ''node1''), (''directConnectPort'', Num 5555)])]"
  using setupDirectConnect_rewrite
    [of "[(''hostname'', Str ''hub''),
      (''capabilities'', Obj [(''directConnectProtocol'', Str ''https''),
         (''directConnectHost'', Str ''node1''), (''directConnectPort'', Num 5555)])]"
      "Obj [(''directConnectProtocol'', Str ''https''),
         (''directConnectHost'', Str ''node1''), (''directConnectPort'', Num 5555)]"]
  by (simp add: direct_connect_complete_def setupDirectConnect_def set_prop_def Let_def)

subsection \<open>Errors from response bodies\<close>

lemma dec_nat_42: "dec_nat 42 = ''42''"
  by (simp add: dec_nat.simps digit_char_def)

text \<open>
  Where the message of the error object is a string or falsy, or the error object has a
  truthy \<^verbatim>\<open>error\<close>, the source builds the error the specification describes.
\<close>

lemma get_prop_object: "is_object v \<Longrightarrow> get_prop v k = Inr (field v k)"
  by (cases v) auto

lemma CustomRequestError_spec:
  assumes "is_object body"
    and "truthy (field (js_or (field body ''value'') body) ''error'')
           \<or> \<not> truthy (field (js_or (field body ''value'') body) ''message'')
           \<or> is_string (field (js_or (field body ''value'') body) ''message'')"
  shows "CustomRequestError body =
     Inr (let errorObj = (if truthy (field body ''value'') then field body ''value'' else body);
             message = (if truthy (field errorObj ''message'') then field errorObj ''message''
                        else if truthy (field errorObj ''class'') then field errorObj ''class''
                        else Str ''unknown error'')
         in \<lparr>err_name =
               (if truthy (field errorObj ''error'') then field errorObj ''error''
                else if message_contains (field errorObj ''message'') ''stale element reference''
                  then Str ''stale element reference''
                else Str ''Error''),
             err_message = to_string message,
             err_code = Undefined\<rparr>)"
proof -
  define eo where "eo = js_or (field body ''value'') body"
  have eo2: "(if truthy (field body ''value'') then field body ''value'' else body) = eo"
    by (simp add: eo_def js_or_def)
  have g: "get_prop body ''value'' = Inr (field body ''value'')"
    using assms(1) by (rule get_prop_object)
  from assms(2) have a: "truthy (field eo ''error'') \<or> \<not> truthy (field eo ''message'')
      \<or> is_string (field eo ''message'')"
    by (simp add: eo_def)
  show ?thesis
    unfolding CustomRequestError_def g sum.case eo_def[symmetric] eo2 Let_def
    using a
    by (cases "field eo ''message''")
       (auto simp: new_Error_def message_contains_def js_or_def simp del: field.simps)
qed

lemma getErrorFromResponseBody_toError_spec:
  assumes "truthy (field (js_or (field body ''value'') body) ''error'')
           \<or> \<not> truthy (field (js_or (field body ''value'') body) ''message'')
           \<or> is_string (field (js_or (field body ''value'') body) ''message'')"
  shows "getErrorFromResponseBody body = Inr (toError_spec body)"
proof (cases "is_object body")
  case True
  from CustomRequestError_spec[OF True assms] show ?thesis
    unfolding getErrorFromResponseBody_def toError_spec_def by simp
next
  case False
  then show ?thesis
    unfolding getErrorFromResponseBody_def toError_spec_def by simp
qed

text \<open>
  C9. Every body is to be mapped as the specification says; for
  \<^verbatim>\<open>{value: {message: 42}}\<close> that is an error with the message \<^verbatim>\<open>42\<close> and no kind
  tag. The source tests \<^verbatim>\<open>errorObj.message\<close> for truthiness only and then calls
  \<^verbatim>\<open>errorObj.message.includes\<close>, which a number does not have: the constructor of
  \<^verbatim>\<open>CustomRequestError\<close> raises a \<^verbatim>\<open>TypeError\<close> and no error object is returned.
\<close>

theorem getErrorFromResponseBody_raises_on_number_message:
  "getErrorFromResponseBody (Obj [(''value'', Obj [(''message'', Num 42)])]) = Inl TypeError
   \<and> toError_spec (Obj [(''value'', Obj [(''message'', Num 42)])])
       = \<lparr>err_name = Str ''Error'', err_message = ''42'', err_code = Undefined\<rparr>"
  by (simp add: getErrorFromResponseBody_def CustomRequestError_def toError_spec_def js_or_def
        new_Error_def message_contains_def dec_int_def dec_nat_42)

subsection \<open>The merged command table\<close>
















subsection \<open>The dispatch table\<close>






subsection \<open>The order of the merged table\<close>
































subsection \<open>The imported tables after the call\<close>

text \<open>A mobile session merges into fresh objects and leaves every table as it was; any
  session leaves the five extension tables as they were.\<close>

lemma getPrototype_mobile_keeps_tables:
  "isMobile fl \<Longrightarrow> snd (getPrototype cmd merge_details fl tables) = tables"
  by (simp add: getPrototype_def tables_after_def)

lemma getPrototype_keeps_extension_tables:
  "MJsonWProtocol (snd (getPrototype cmd merge_details fl tables)) = MJsonWProtocol tables
   \<and> AppiumProtocol (snd (getPrototype cmd merge_details fl tables)) = AppiumProtocol tables
   \<and> ChromiumProtocol (snd (getPrototype cmd merge_details fl tables)) = ChromiumProtocol tables
   \<and> SauceLabsProtocol (snd (getPrototype cmd merge_details fl tables)) = SauceLabsProtocol tables
   \<and> SeleniumProtocol (snd (getPrototype cmd merge_details fl tables)) = SeleniumProtocol tables"
  by (simp add: getPrototype_def tables_after_def)

text \<open>
  C5. No table is to differ after the call. For a W3C Chrome session on a desktop the
  destination of the outer \<^verbatim>\<open>merge\<close> is the imported \<^verbatim>\<open>WebDriverProtocol\<close> object
  itself, and lodash writes the Chromium endpoints into it: after the call the
  spec-compliant table holds the vendor's endpoint too. The mobile branch shows the
  remedy, \<^verbatim>\<open>merge({}, ...)\<close>.
\<close>

theorem getPrototype_mutates_WebDriverProtocol:
  "WebDriverProtocol
     (snd (getPrototype cmd merge_details
        \<lparr>isW3C = True, isChrome = True, isMobile = False, isSauce = False,
         isSeleniumStandalone = False\<rparr>
        \<lparr>WebDriverProtocol =
           [(''/session/:sessionId/url'', [(''GET'', \<lparr>command = ''getUrl'', details = d1\<rparr>)])],
         MJsonWProtocol = [], JsonWProtocol = [], AppiumProtocol = [],
         ChromiumProtocol =
           [(''/session/:sessionId/goog/cdp/execute'',
             [(''POST'', \<lparr>command = ''sendCommand'', details = d2\<rparr>)])],
         SauceLabsProtocol = [], SeleniumProtocol = []\<rparr>))
   = [(''/session/:sessionId/url'', [(''GET'', \<lparr>command = ''getUrl'', details = d1\<rparr>)]),
      (''/session/:sessionId/goog/cdp/execute'',
       [(''POST'', \<lparr>command = ''sendCommand'', details = d2\<rparr>)])]"
  by (simp add: getPrototype_def tables_after_def ProtocolCommands_def extension_sources_def
        lodash_merge_def merge_protocol_def)

end
